theory Spec2Isabelle
  imports Main "HOL-Library.Word"
begin

section \<open>Memory, pointers and failures\<close>

text \<open>
  A pointer (\<^verbatim>\<open>void*\<close>, \<^verbatim>\<open>const void*\<close>, \<^verbatim>\<open>u_char*\<close>, an iterator's base) is a
  byte address; address \<open>0\<close> is \<^verbatim>\<open>NULL\<close>. The memory every view looks into is a
  map from addresses to bytes. Sizes (\<^verbatim>\<open>size_t\<close>) are natural numbers.
\<close>

type_synonym addr = nat
type_synonym u_char = "8 word"
type_synonym heap = "addr \<Rightarrow> u_char"

text \<open>
  What stops a call in a diagnostic build: a failed \<^verbatim>\<open>assert\<close>, a load or store
  through \<^verbatim>\<open>NULL\<close>, the remainder of a division by zero, and a read past the end
  of a stream.
\<close>

datatype error = AssertionFailed | NullPointer | DivisionByZero | StreamUnderrun

definition load :: "heap \<Rightarrow> addr \<Rightarrow> nat \<Rightarrow> u_char list" where
  "load h a n = map h [a ..< a + n]"

definition store :: "heap \<Rightarrow> addr \<Rightarrow> u_char list \<Rightarrow> heap" where
  "store h a bs = (\<lambda>x. if a \<le> x \<and> x < a + length bs then bs ! (x - a) else h x)"

definition zero_heap :: heap where
  "zero_heap = (\<lambda>x. 0)"

text \<open>
  \<^verbatim>\<open>*reinterpret_cast<const u_char*>(p)\<close>: one byte loaded through \<open>p\<close>.
\<close>

definition deref :: "heap \<Rightarrow> addr \<Rightarrow> error + u_char" where
  "deref h p = (if p = 0 then Inl NullPointer else Inr (h p))"

text \<open>
  The C library's \<^verbatim>\<open>memcpy (dst, src, n)\<close> and \<^verbatim>\<open>memset (dst, c, n)\<close>. A call
  that moves no byte touches nothing; otherwise both pointers are dereferenced.
  The bytes stored are the ones the source range held when the call began (for
  ranges that do not overlap this is the only possible outcome; C leaves the
  overlapping case open).
\<close>

definition memcpy :: "heap \<Rightarrow> addr \<Rightarrow> addr \<Rightarrow> nat \<Rightarrow> error + heap" where
  "memcpy h dst src n =
     (if n = 0 then Inr h
      else if dst = 0 \<or> src = 0 then Inl NullPointer
      else Inr (store h dst (load h src n)))"

definition memset :: "heap \<Rightarrow> addr \<Rightarrow> u_char \<Rightarrow> nat \<Rightarrow> error + heap" where
  "memset h dst c n =
     (if n = 0 then Inr h
      else if dst = 0 then Inl NullPointer
      else Inr (store h dst (replicate n c)))"

section \<open>The read-only base view\<close>

text \<open>
  Modelled from the spec: the class \<^verbatim>\<open>cmemlink\<close> (cmemlink.h, cmemlink.cc) is not
  among the sources. The spec's base view tracks the triple (pointer, size,
  elementSize) and offers \<^verbatim>\<open>size\<close>, \<^verbatim>\<open>begin\<close>, \<^verbatim>\<open>end\<close>, \<^verbatim>\<open>elementSize\<close>,
  \<^verbatim>\<open>resize\<close>, \<^verbatim>\<open>swap\<close>, \<^verbatim>\<open>link\<close> and \<^verbatim>\<open>unlink\<close>. The spec fixes no element size for
  a fresh view, so the constructors take it as an argument.
\<close>

record cmemlink =
  m_CData :: addr
  m_Size :: nat
  elementSize :: nat

definition cmemlink_default :: "nat \<Rightarrow> cmemlink" where
  "cmemlink_default es = \<lparr>m_CData = 0, m_Size = 0, elementSize = es\<rparr>"

definition cmemlink_ctor :: "nat \<Rightarrow> addr \<Rightarrow> nat \<Rightarrow> cmemlink" where
  "cmemlink_ctor es p n = \<lparr>m_CData = p, m_Size = n, elementSize = es\<rparr>"

text \<open>Assignment replaces the whole descriptor of \<open>v\<close> by that of \<open>l\<close>.\<close>

definition cmemlink_assign :: "'a cmemlink_scheme \<Rightarrow> 'b cmemlink_scheme \<Rightarrow> 'a cmemlink_scheme" where
  "cmemlink_assign v l =
     v\<lparr>m_CData := m_CData l, m_Size := m_Size l, elementSize := elementSize l\<rparr>"

text \<open>\<^verbatim>\<open>swap\<close> exchanges the pointer/size/elementSize triples of the two views.\<close>

definition cmemlink_swap ::
  "'a cmemlink_scheme \<Rightarrow> 'b cmemlink_scheme \<Rightarrow> 'a cmemlink_scheme \<times> 'b cmemlink_scheme" where
  "cmemlink_swap v l = (cmemlink_assign v l, cmemlink_assign l v)"

definition cmemlink_link :: "'a cmemlink_scheme \<Rightarrow> addr \<Rightarrow> nat \<Rightarrow> 'a cmemlink_scheme" where
  "cmemlink_link v p n = v\<lparr>m_CData := p, m_Size := n\<rparr>"

definition cmemlink_unlink :: "'a cmemlink_scheme \<Rightarrow> 'a cmemlink_scheme" where
  "cmemlink_unlink v = v\<lparr>m_CData := 0, m_Size := 0\<rparr>"

definition cmemlink_resize :: "'a cmemlink_scheme \<Rightarrow> nat \<Rightarrow> 'a cmemlink_scheme" where
  "cmemlink_resize v n = v\<lparr>m_Size := n\<rparr>"

definition cmemlink_begin :: "'a cmemlink_scheme \<Rightarrow> addr" where
  "cmemlink_begin v = m_CData v"

section \<open>The mutable view\<close>

text \<open>
  \<^verbatim>\<open>class memlink : public cmemlink\<close> adds the mutable pointer \<^verbatim>\<open>m_Data\<close>.
\<close>

record memlink = cmemlink +
  m_Data :: addr

text \<open>
  Modelled from the spec: the inline accessors of memlink.h are not among the
  sources. \<^verbatim>\<open>data()\<close> is the mutable pointer; the mutable iterators \<^verbatim>\<open>begin()\<close>
  and \<^verbatim>\<open>end()\<close> delimit the \<^verbatim>\<open>size()\<close> bytes starting there (\<^verbatim>\<open>insert\<close> names the
  base's \<^verbatim>\<open>cmemlink::begin()\<close> explicitly when it means the read-only pointer).
  \<^verbatim>\<open>distance (a, b)\<close> is \<open>b - a\<close>.
\<close>

definition data :: "memlink \<Rightarrow> addr" where
  "data v = m_Data v"

definition memlink_begin :: "memlink \<Rightarrow> addr" where
  "memlink_begin v = m_Data v"

definition memlink_end :: "memlink \<Rightarrow> addr" where
  "memlink_end v = memlink_begin v + m_Size v"

definition distance :: "addr \<Rightarrow> addr \<Rightarrow> nat" where
  "distance a b = b - a"

subsection \<open>Construction, assignment, swap, link, unlink\<close>

text \<open>\<^verbatim>\<open>memlink::memlink (void)\<close>\<close>

definition memlink_default :: "nat \<Rightarrow> memlink" where
  "memlink_default es = cmemlink.extend (cmemlink_default es) (memlink.fields 0)"

text \<open>\<^verbatim>\<open>memlink::memlink (const void* p, size_t n)\<close>\<close>

definition memlink_of_const :: "nat \<Rightarrow> addr \<Rightarrow> nat \<Rightarrow> memlink" where
  "memlink_of_const es p n = cmemlink.extend (cmemlink_ctor es p n) (memlink.fields 0)"

text \<open>\<^verbatim>\<open>memlink::memlink (void* p, size_t n)\<close>\<close>

definition memlink_of_mutable :: "nat \<Rightarrow> addr \<Rightarrow> nat \<Rightarrow> memlink" where
  "memlink_of_mutable es p n = cmemlink.extend (cmemlink_ctor es p n) (memlink.fields p)"

text \<open>\<^verbatim>\<open>memlink::memlink (const cmemlink& l)\<close>\<close>

definition memlink_of_cmemlink :: "cmemlink \<Rightarrow> memlink" where
  "memlink_of_cmemlink l = cmemlink.extend l (memlink.fields 0)"

text \<open>\<^verbatim>\<open>memlink::memlink (const memlink& l)\<close>\<close>

definition memlink_of_memlink :: "memlink \<Rightarrow> memlink" where
  "memlink_of_memlink l = cmemlink.extend (cmemlink.truncate l) (memlink.fields (m_Data l))"

text \<open>\<^verbatim>\<open>memlink::operator= (const cmemlink& l)\<close>\<close>

definition memlink_assign_cmemlink :: "memlink \<Rightarrow> cmemlink \<Rightarrow> memlink" where
  "memlink_assign_cmemlink v l = (cmemlink_assign v l)\<lparr>m_Data := 0\<rparr>"

text \<open>\<^verbatim>\<open>memlink::operator= (const memlink& l)\<close>\<close>

definition memlink_assign :: "memlink \<Rightarrow> memlink \<Rightarrow> memlink" where
  "memlink_assign v l = (cmemlink_assign v l)\<lparr>m_Data := m_Data l\<rparr>"

text \<open>\<^verbatim>\<open>memlink::swap (memlink& l)\<close>: the new \<open>*this\<close> and the new \<open>l\<close>.\<close>

definition memlink_swap :: "memlink \<Rightarrow> memlink \<Rightarrow> memlink \<times> memlink" where
  "memlink_swap v l =
     (case cmemlink_swap v l of
        (v', l') \<Rightarrow> (v'\<lparr>m_Data := m_Data l'\<rparr>, l'\<lparr>m_Data := m_Data v'\<rparr>))"

text \<open>\<^verbatim>\<open>memlink::link (void* p, size_t n)\<close>\<close>

definition memlink_link :: "memlink \<Rightarrow> addr \<Rightarrow> nat \<Rightarrow> memlink" where
  "memlink_link v p n = (cmemlink_link v p n)\<lparr>m_Data := p\<rparr>"

text \<open>\<^verbatim>\<open>memlink::unlink (void)\<close>\<close>

definition memlink_unlink :: "memlink \<Rightarrow> memlink" where
  "memlink_unlink v = (cmemlink_unlink v)\<lparr>m_Data := 0\<rparr>"

subsection \<open>The collaborators of the mutating operations\<close>

text \<open>
  Modelled from the spec: the algorithm \<^verbatim>\<open>rotate\<close> of ualgo.h is not among the
  sources. \<^verbatim>\<open>rotate (first, middle, last)\<close> is the three-way in-place rotation of
  the STL: the adjacent ranges \<open>[first, middle)\<close> and \<open>[middle, last)\<close> exchange
  places, the byte at \<open>middle\<close> coming first. Its callers \<^verbatim>\<open>insert\<close> and \<^verbatim>\<open>erase\<close>
  assert \<open>first \<le> middle \<le> last\<close> before they call it.
\<close>

definition ustl_rotate :: "heap \<Rightarrow> addr \<Rightarrow> addr \<Rightarrow> addr \<Rightarrow> heap" where
  "ustl_rotate h first middle last' =
     store h first (load h middle (last' - middle) @ load h first (middle - first))"

text \<open>
  Modelled from the spec: the class \<^verbatim>\<open>istream\<close> of mistream.h is not among the
  sources. The spec's stream capability reads an unsigned integer, reads \<open>n\<close>
  raw bytes into a buffer, skips \<open>n\<close> bytes and aligns the cursor to the
  stream's required boundary; the serialized form of a block is the length, the
  raw bytes and padding up to the alignment. The width of the integer and the
  alignment belong to the stream; the integer is stored least significant byte
  first. Reading needs the bytes to be there; skipping and aligning only move
  the cursor.
\<close>

record istream =
  buf :: "u_char list"
  pos :: nat
  size_width :: nat
  alignment :: nat

definition le_nat :: "u_char list \<Rightarrow> nat" where
  "le_nat bs = foldr (\<lambda>b acc. unat b + 256 * acc) bs 0"

definition istream_read_size :: "istream \<Rightarrow> error + nat \<times> istream" where
  "istream_read_size s =
     (if length (buf s) < pos s + size_width s then Inl StreamUnderrun
      else Inr (le_nat (take (size_width s) (drop (pos s) (buf s))),
                s\<lparr>pos := pos s + size_width s\<rparr>))"

definition istream_read :: "istream \<Rightarrow> heap \<Rightarrow> addr \<Rightarrow> nat \<Rightarrow> error + heap \<times> istream" where
  "istream_read s h p n =
     (if length (buf s) < pos s + n then Inl StreamUnderrun
      else if n = 0 then Inr (h, s)
      else if p = 0 then Inl NullPointer
      else Inr (store h p (take n (drop (pos s) (buf s))), s\<lparr>pos := pos s + n\<rparr>))"

definition istream_skip :: "istream \<Rightarrow> nat \<Rightarrow> istream" where
  "istream_skip s n = s\<lparr>pos := pos s + n\<rparr>"

definition align_up :: "nat \<Rightarrow> nat \<Rightarrow> nat" where
  "align_up x g = ((x + (g - 1)) div g) * g"

definition istream_align :: "istream \<Rightarrow> error + istream" where
  "istream_align s =
     (if alignment s = 0 then Inl DivisionByZero
      else Inr (s\<lparr>pos := align_up (pos s) (alignment s)\<rparr>))"

subsection \<open>read, copy, fill, insert, erase\<close>

text \<open>
  Each operation returns the view and the memory it leaves, or what stopped it.
  The \<^verbatim>\<open>assert\<close>s are those of the source, in its order; the remainder
  \<^verbatim>\<open>x % elementSize()\<close> divides by the element size.
\<close>

definition assert :: "bool \<Rightarrow> error + 'a \<Rightarrow> error + 'a" where
  "assert c k = (if c then k else Inl AssertionFailed)"

definition remainder :: "nat \<Rightarrow> nat \<Rightarrow> (nat \<Rightarrow> error + 'a) \<Rightarrow> error + 'a" where
  "remainder x y k = (if y = 0 then Inl DivisionByZero else k (x mod y))"

text \<open>\<^verbatim>\<open>memlink::read (istream& is)\<close>\<close>

definition memlink_read :: "memlink \<Rightarrow> heap \<Rightarrow> istream \<Rightarrow> error + memlink \<times> heap \<times> istream" where
  "memlink_read v h s =
     (case istream_read_size s of
        Inl e \<Rightarrow> Inl e
      | Inr (n, s1) \<Rightarrow>
          remainder n (elementSize v) (\<lambda>r.
          assert (r = 0)
            (let btr = min n (m_Size v) in
             case istream_read s1 h (data v) btr of
               Inl e \<Rightarrow> Inl e
             | Inr (h', s2) \<Rightarrow>
                 let v' = cmemlink_resize v btr;
                     s3 = istream_skip s2 (n - btr)
                 in (case istream_align s3 of
                       Inl e \<Rightarrow> Inl e
                     | Inr s4 \<Rightarrow> Inr (v', h', s4)))))"

text \<open>\<^verbatim>\<open>memlink::copy (iterator start, const void* p, size_t n)\<close>\<close>

definition memlink_copy :: "memlink \<Rightarrow> heap \<Rightarrow> addr \<Rightarrow> addr \<Rightarrow> nat \<Rightarrow> error + memlink \<times> heap" where
  "memlink_copy v h start p n =
     assert (m_Data v \<noteq> 0 \<or> n = 0)
    (assert (p \<noteq> 0 \<or> n = 0)
    (assert (memlink_begin v \<le> start \<and> start + n \<le> memlink_end v)
    (remainder n (elementSize v) (\<lambda>r.
     assert (r = 0)
       (if p \<noteq> 0 \<and> n \<noteq> 0 \<and> p \<noteq> m_Data v then
          (case memcpy h start p n of Inl e \<Rightarrow> Inl e | Inr h' \<Rightarrow> Inr (v, h'))
        else Inr (v, h))))))"

text \<open>
  The loop of \<^verbatim>\<open>memlink::fill\<close>:
  \<^verbatim>\<open>while (elCount--) { memcpy (start, p, elSize); start += elSize; }\<close>
\<close>

primrec fill_loop :: "heap \<Rightarrow> addr \<Rightarrow> addr \<Rightarrow> nat \<Rightarrow> nat \<Rightarrow> error + heap" where
  "fill_loop h start p elSize 0 = Inr h"
| "fill_loop h start p elSize (Suc elCount) =
     (case memcpy h start p elSize of
        Inl e \<Rightarrow> Inl e
      | Inr h' \<Rightarrow> fill_loop h' (start + elSize) p elSize elCount)"

text \<open>
  \<^verbatim>\<open>memlink::fill (iterator start, const void* p, size_t elSize, size_t elCount)\<close>.
  The argument \<^verbatim>\<open>*reinterpret_cast<const u_char*>(p)\<close> of \<^verbatim>\<open>memset\<close> is evaluated
  before the call. The product \<^verbatim>\<open>elSize * elCount\<close> is that of natural numbers; with
  \<^verbatim>\<open>elSize\<close> 0 or 1, or \<^verbatim>\<open>elCount\<close> 0, the product of the machine is the same.
\<close>

definition memlink_fill ::
  "memlink \<Rightarrow> heap \<Rightarrow> addr \<Rightarrow> addr \<Rightarrow> nat \<Rightarrow> nat \<Rightarrow> error + memlink \<times> heap" where
  "memlink_fill v h start p elSize elCount =
     assert (m_Data v \<noteq> 0 \<or> elCount = 0 \<or> elSize = 0)
    (assert (memlink_begin v \<le> start \<and> start + elSize * elCount \<le> memlink_end v)
    (remainder elSize (elementSize v) (\<lambda>r.
     assert (r = 0)
       (if elSize = 1 then
          (case deref h p of
             Inl e \<Rightarrow> Inl e
           | Inr c \<Rightarrow>
               (case memset h start c elCount of Inl e \<Rightarrow> Inl e | Inr h' \<Rightarrow> Inr (v, h')))
        else
          (case fill_loop h start p elSize elCount of
             Inl e \<Rightarrow> Inl e
           | Inr h' \<Rightarrow> Inr (v, h'))))))"

text \<open>\<^verbatim>\<open>memlink::insert (iterator start, size_t n)\<close>\<close>

definition memlink_insert :: "memlink \<Rightarrow> heap \<Rightarrow> addr \<Rightarrow> nat \<Rightarrow> error + memlink \<times> heap" where
  "memlink_insert v h start n =
     assert (m_Data v \<noteq> 0 \<or> n = 0)
    (assert (cmemlink_begin v \<noteq> 0 \<or> n = 0)
    (assert (memlink_begin v \<le> start \<and> start + n \<le> memlink_end v)
    (remainder n (elementSize v) (\<lambda>r.
     assert (r = 0)
    (remainder (distance (memlink_begin v) start) (elementSize v) (\<lambda>r.
     assert (r = 0)
       (let first = start;
            last' = memlink_end v;
            middle = last' - n
        in Inr (v, ustl_rotate h first middle last'))))))))"

text \<open>\<^verbatim>\<open>memlink::erase (iterator start, size_t n)\<close>\<close>

definition memlink_erase :: "memlink \<Rightarrow> heap \<Rightarrow> addr \<Rightarrow> nat \<Rightarrow> error + memlink \<times> heap" where
  "memlink_erase v h start n =
     assert (m_Data v \<noteq> 0 \<or> n = 0)
    (assert (cmemlink_begin v \<noteq> 0 \<or> n = 0)
    (assert (memlink_begin v \<le> start \<and> start + n \<le> memlink_end v)
    (remainder n (elementSize v) (\<lambda>r.
     assert (r = 0)
    (remainder (distance (memlink_begin v) start) (elementSize v) (\<lambda>r.
     assert (r = 0)
       (let first = start;
            last' = memlink_end v;
            middle = first + n
        in Inr (v, ustl_rotate h first middle last'))))))))"

section \<open>What the claims speak of\<close>

text \<open>
  Invariant I1: the mutable pointer is null or equals the address the base
  view observes.
\<close>

definition I1 :: "memlink \<Rightarrow> bool" where
  "I1 v = (m_Data v = 0 \<or> m_Data v = m_CData v)"

text \<open>
  The views a program can build: every constructor makes one, and every
  operation that returns leaves one.
\<close>

inductive reachable :: "memlink \<Rightarrow> bool" where
  by_default: "reachable (memlink_default es)"
| by_of_const: "reachable (memlink_of_const es p n)"
| by_of_mutable: "reachable (memlink_of_mutable es p n)"
| by_of_cmemlink: "reachable (memlink_of_cmemlink c)"
| by_of_memlink: "reachable l \<Longrightarrow> reachable (memlink_of_memlink l)"
| by_assign_cmemlink: "reachable v \<Longrightarrow> reachable (memlink_assign_cmemlink v c)"
| by_assign: "reachable v \<Longrightarrow> reachable l \<Longrightarrow> reachable (memlink_assign v l)"
| by_swap_this: "reachable v \<Longrightarrow> reachable l \<Longrightarrow> reachable (fst (memlink_swap v l))"
| by_swap_other: "reachable v \<Longrightarrow> reachable l \<Longrightarrow> reachable (snd (memlink_swap v l))"
| by_link: "reachable v \<Longrightarrow> reachable (memlink_link v p n)"
| by_unlink: "reachable v \<Longrightarrow> reachable (memlink_unlink v)"
| by_read: "reachable v \<Longrightarrow> memlink_read v h s = Inr (v', h', s') \<Longrightarrow> reachable v'"
| by_copy: "reachable v \<Longrightarrow> memlink_copy v h start p n = Inr (v', h') \<Longrightarrow> reachable v'"
| by_fill:
    "reachable v \<Longrightarrow> memlink_fill v h start p elSize elCount = Inr (v', h') \<Longrightarrow> reachable v'"
| by_insert: "reachable v \<Longrightarrow> memlink_insert v h start n = Inr (v', h') \<Longrightarrow> reachable v'"
| by_erase: "reachable v \<Longrightarrow> memlink_erase v h start n = Inr (v', h') \<Longrightarrow> reachable v'"

text \<open>
  The general contract of \<^verbatim>\<open>fill\<close> in the spec's words: \<open>repeatCount\<close>
  back-to-back copies of the pattern, written from the destination on.
\<close>

definition spec_fill :: "heap \<Rightarrow> addr \<Rightarrow> u_char list \<Rightarrow> nat \<Rightarrow> heap" where
  "spec_fill h start pattern repeatCount = store h start (concat (replicate repeatCount pattern))"

text \<open>The bytes \<^verbatim>\<open>A\<close> to \<^verbatim>\<open>H\<close> of the spec's example.\<close>

definition letters :: "u_char list" where
  "letters = [65, 66, 67, 68, 69, 70, 71, 72]"

section \<open>Memory lemmas\<close>

lemmas view_simps =
  memlink_of_const_def memlink_of_mutable_def cmemlink_ctor_def cmemlink.defs memlink.defs
  memlink_begin_def memlink_end_def

lemmas heap_simps = load_def store_def zero_heap_def upt_rec

lemma load_length [simp]: "length (load h a n) = n"
  by (simp add: load_def)

lemma load_nth [simp]: "i < n \<Longrightarrow> load h a n ! i = h (a + i)"
  by (simp add: load_def)

lemma store_outside: "x < a \<or> a + length bs \<le> x \<Longrightarrow> store h a bs x = h x"
  by (auto simp: store_def)

lemma store_Nil [simp]: "store h a [] = h"
  by (rule ext) (auto simp: store_def)

lemma load_store_same: "load (store h a bs) a (length bs) = bs"
  by (rule nth_equalityI) (simp_all add: store_def)

text \<open>Rotating back by the complementary amount restores the memory.\<close>

lemma rotate_unrotate:
  assumes "s + n \<le> e"
  shows "ustl_rotate (ustl_rotate h s (e - n) e) s (s + n) e = h"
proof (rule ext)
  fix x
  show "ustl_rotate (ustl_rotate h s (e - n) e) s (s + n) e x = h x"
    using assms
    by (auto simp: ustl_rotate_def store_def nth_append)
qed

lemma align_up_ge: "0 < g \<Longrightarrow> x \<le> align_up x g"
proof -
  assume g: "0 < g"
  have "x + (g - 1) = (x + (g - 1)) div g * g + (x + (g - 1)) mod g"
    by simp
  moreover have "(x + (g - 1)) mod g \<le> g - 1"
    using g by (simp add: less_Suc_eq_le [symmetric])
  ultimately show ?thesis
    unfolding align_up_def by linarith
qed

text \<open>
  The loop of \<^verbatim>\<open>fill\<close> with a one-byte pattern: every pass stores the byte it
  finds at \<open>p\<close>, and a pass that stores onto \<open>p\<close> itself stores the same byte,
  so the pattern never changes under the loop.
\<close>

lemma fill_loop_byte:
  "p \<noteq> 0 \<Longrightarrow> k = 0 \<or> start \<noteq> 0 \<Longrightarrow>
   fill_loop h start p 1 k = Inr (store h start (replicate k (h p)))"
proof (induction k arbitrary: h start)
  case 0
  then show ?case by simp
next
  case (Suc k)
  let ?h1 = "store h start (load h p 1)"
  from Suc.prems have start: "start \<noteq> 0" by simp
  have same: "?h1 p = h p"
    by (simp add: store_def)
  have "fill_loop h start p 1 (Suc k) = fill_loop ?h1 (start + 1) p 1 k"
    using Suc.prems start by (simp add: memcpy_def)
  also have "\<dots> = Inr (store ?h1 (start + 1) (replicate k (?h1 p)))"
    using Suc.prems by (intro Suc.IH) simp_all
  also have "store ?h1 (start + 1) (replicate k (?h1 p)) = store h start (replicate (Suc k) (h p))"
    unfolding same by (rule ext) (auto simp: store_def nth_Cons split: nat.splits)
  finally show ?case .
qed

lemma concat_replicate_single: "concat (replicate k [c]) = replicate k c"
  by (induction k) simp_all

section \<open>The operations that move no pointer\<close>

lemma memlink_read_view:
  "memlink_read v h s = Inr (v', h', s') \<Longrightarrow> \<exists>n. v' = cmemlink_resize v n"
  by (auto simp: memlink_read_def assert_def remainder_def Let_def
      split: sum.splits if_splits prod.splits)

lemma memlink_copy_view: "memlink_copy v h start p n = Inr (v', h') \<Longrightarrow> v' = v"
  by (auto simp: memlink_copy_def assert_def remainder_def split: sum.splits if_splits)

lemma memlink_fill_view: "memlink_fill v h start p elSize elCount = Inr (v', h') \<Longrightarrow> v' = v"
  by (auto simp: memlink_fill_def assert_def remainder_def split: sum.splits if_splits)

lemma memlink_insert_view: "memlink_insert v h start n = Inr (v', h') \<Longrightarrow> v' = v"
  by (auto simp: memlink_insert_def assert_def remainder_def Let_def split: if_splits)

lemma memlink_erase_view: "memlink_erase v h start n = Inr (v', h') \<Longrightarrow> v' = v"
  by (auto simp: memlink_erase_def assert_def remainder_def Let_def split: if_splits)

section \<open>read\<close>

text \<open>
  Claim C1. A call of \<^verbatim>\<open>read\<close> on a stream that holds the length \<open>n\<close>, a
  multiple of the element size, and after it the \<open>btr = min n size\<close> bytes to
  take, into a view whose data pointer can be written when \<open>btr > 0\<close>: the call
  returns; the view's size is \<open>btr\<close> and its pointers are as before; the \<open>btr\<close>
  bytes that follow the length in the stream stand in memory from the data
  pointer on, and no other byte of memory has changed; the cursor has skipped
  the remaining \<open>n - btr\<close> bytes and stands at the aligned position after the
  full serialized length, also when \<open>n\<close> exceeds the view's size.
\<close>

theorem memlink_read_truncates:
  assumes len: "pos s + size_width s \<le> length (buf s)"
    and n: "n = le_nat (take (size_width s) (drop (pos s) (buf s)))"
    and es: "0 < elementSize v" and mult: "n mod elementSize v = 0"
    and btr: "btr = min n (m_Size v)"
    and bytes: "pos s + size_width s + btr \<le> length (buf s)"
    and writable: "btr = 0 \<or> m_Data v \<noteq> 0"
    and al: "0 < alignment s"
    and bs: "bs = take btr (drop (pos s + size_width s) (buf s))"
  shows "\<exists>h' s'. memlink_read v h s = Inr (v\<lparr>m_Size := btr\<rparr>, h', s') \<and>
           length bs = btr \<and> load h' (m_Data v) btr = bs \<and>
           (\<forall>a. a < m_Data v \<or> m_Data v + btr \<le> a \<longrightarrow> h' a = h a) \<and>
           s' = s\<lparr>pos := align_up (pos s + size_width s + n) (alignment s)\<rparr> \<and>
           pos s + size_width s + n \<le> pos s'"
proof -
  let ?h' = "store h (m_Data v) bs"
  let ?s' = "s\<lparr>pos := align_up (pos s + size_width s + n) (alignment s)\<rparr>"
  have lbs: "length bs = btr"
    using bytes by (simp add: bs)
  have le: "btr \<le> n"
    by (simp add: btr)
  have run: "memlink_read v h s = Inr (v\<lparr>m_Size := btr\<rparr>, ?h', ?s')"
    using len es mult bytes writable al le lbs
    by (auto simp: memlink_read_def istream_read_size_def istream_read_def istream_skip_def
        istream_align_def assert_def remainder_def cmemlink_resize_def data_def Let_def
        n [symmetric] btr [symmetric] bs [symmetric] add.assoc)
  have stored: "load ?h' (m_Data v) btr = bs"
    using load_store_same [of h "m_Data v" bs] by (simp add: lbs)
  have frame: "\<forall>a. a < m_Data v \<or> m_Data v + btr \<le> a \<longrightarrow> ?h' a = h a"
    by (simp add: store_outside lbs)
  have past: "pos s + size_width s + n \<le> pos ?s'"
    using al by (simp add: align_up_ge)
  from run lbs stored frame past show ?thesis by blast
qed

text \<open>
  A stream offering ten bytes to a view of eight: eight are taken, two are
  skipped, and the cursor goes from 14 to the boundary 16.
\<close>

theorem memlink_read_truncates_witness:
  "\<exists>h' s'. memlink_read (memlink_of_mutable 1 100 8) zero_heap
              \<lparr>buf = [10, 0, 0, 0] @ letters @ [73, 74, 0, 0], pos = 0,
               size_width = 4, alignment = 4\<rparr> =
            Inr (memlink_of_mutable 1 100 8, h', s') \<and>
          load h' 100 8 = letters \<and> h' 108 = 0 \<and> pos s' = 16"
proof -
  let ?v = "memlink_of_mutable 1 100 8"
  let ?s = "\<lparr>buf = [10, 0, 0, 0] @ letters @ [73, 74, 0, 0], pos = 0,
             size_width = 4, alignment = 4\<rparr>"
  have "\<exists>h' s'. memlink_read ?v zero_heap ?s = Inr (?v\<lparr>m_Size := 8\<rparr>, h', s') \<and>
           length letters = 8 \<and> load h' (m_Data ?v) 8 = letters \<and>
           (\<forall>a. a < m_Data ?v \<or> m_Data ?v + 8 \<le> a \<longrightarrow> h' a = zero_heap a) \<and>
           s' = ?s\<lparr>pos := align_up (pos ?s + size_width ?s + 10) (alignment ?s)\<rparr> \<and>
           pos ?s + size_width ?s + 10 \<le> pos s'"
    by (rule memlink_read_truncates) (simp_all add: view_simps le_nat_def letters_def)
  then obtain h' s' where run: "memlink_read ?v zero_heap ?s = Inr (?v\<lparr>m_Size := 8\<rparr>, h', s')"
    and stored: "load h' (m_Data ?v) 8 = letters"
    and frame: "\<And>a. a < m_Data ?v \<or> m_Data ?v + 8 \<le> a \<Longrightarrow> h' a = zero_heap a"
    and cursor: "s' = ?s\<lparr>pos := align_up (pos ?s + size_width ?s + 10) (alignment ?s)\<rparr>"
    by blast
  have "?v\<lparr>m_Size := 8\<rparr> = ?v"
    by (simp add: view_simps)
  moreover have "load h' 100 8 = letters"
    using stored by (simp add: view_simps)
  moreover have "h' 108 = 0"
    using frame [of 108] by (simp add: view_simps zero_heap_def)
  moreover have "pos s' = 16"
    by (simp add: cursor align_up_def)
  ultimately show ?thesis
    using run by auto
qed

section \<open>insert and erase\<close>

text \<open>
  Claim C2. A call \<^verbatim>\<open>insert (start, n)\<close> that meets the assertions (\<open>start\<close> and
  \<open>start + n\<close> inside the view, \<open>n\<close> and the distance from \<^verbatim>\<open>begin\<close> to \<open>start\<close>
  multiples of the element size; element size 1 is the case where the last two
  always hold) returns with the view as it was (pointer, size and element
  size); the bytes of \<open>[begin, start)\<close> are unchanged, every byte that was at a
  position \<open>a\<close> of \<open>[start, end - n)\<close> is now at \<open>a + n\<close>, and memory outside the
  view is unchanged. Nothing is said of the gap \<open>[start, start + n)\<close>.
\<close>

theorem memlink_insert_shifts:
  assumes "n = 0 \<or> m_Data v \<noteq> 0" and "n = 0 \<or> m_CData v \<noteq> 0"
    and "memlink_begin v \<le> start" and "start + n \<le> memlink_end v"
    and "0 < elementSize v" and "n mod elementSize v = 0"
    and "distance (memlink_begin v) start mod elementSize v = 0"
  shows "\<exists>h'. memlink_insert v h start n = Inr (v, h') \<and>
           (\<forall>a. memlink_begin v \<le> a \<and> a < start \<longrightarrow> h' a = h a) \<and>
           (\<forall>a. start \<le> a \<and> a < memlink_end v - n \<longrightarrow> h' (a + n) = h a) \<and>
           (\<forall>a. a < memlink_begin v \<or> memlink_end v \<le> a \<longrightarrow> h' a = h a)"
proof -
  let ?h' = "ustl_rotate h start (memlink_end v - n) (memlink_end v)"
  have run: "memlink_insert v h start n = Inr (v, ?h')"
    using assms
    by (auto simp: memlink_insert_def assert_def remainder_def cmemlink_begin_def Let_def)
  have before: "\<forall>a. memlink_begin v \<le> a \<and> a < start \<longrightarrow> ?h' a = h a"
    by (simp add: ustl_rotate_def store_def)
  have moved: "\<forall>a. start \<le> a \<and> a < memlink_end v - n \<longrightarrow> ?h' (a + n) = h a"
    using assms(4) by (auto simp: ustl_rotate_def store_def nth_append)
  have frame: "\<forall>a. a < memlink_begin v \<or> memlink_end v \<le> a \<longrightarrow> ?h' a = h a"
    using assms(3,4) by (auto simp: ustl_rotate_def store_def)
  from run before moved frame show ?thesis by blast
qed

text \<open>
  The spec's example: a view of twelve bytes at address 100 whose first eight
  are \<^verbatim>\<open>A\<close> to \<^verbatim>\<open>H\<close>, and a gap of four opened at offset 4.
\<close>

theorem memlink_insert_shifts_witness:
  "\<exists>h'. memlink_insert (memlink_of_mutable 1 100 12) (store zero_heap 100 letters) 104 4 =
          Inr (memlink_of_mutable 1 100 12, h') \<and>
        load h' 100 4 = [65, 66, 67, 68] \<and> load h' 108 4 = [69, 70, 71, 72]"
proof -
  let ?v = "memlink_of_mutable 1 100 12" and ?h = "store zero_heap 100 letters"
  have "\<exists>h'. memlink_insert ?v ?h 104 4 = Inr (?v, h') \<and>
           (\<forall>a. memlink_begin ?v \<le> a \<and> a < 104 \<longrightarrow> h' a = ?h a) \<and>
           (\<forall>a. 104 \<le> a \<and> a < memlink_end ?v - 4 \<longrightarrow> h' (a + 4) = ?h a) \<and>
           (\<forall>a. a < memlink_begin ?v \<or> memlink_end ?v \<le> a \<longrightarrow> h' a = ?h a)"
    by (rule memlink_insert_shifts) (simp_all add: view_simps)
  then obtain h' where run: "memlink_insert ?v ?h 104 4 = Inr (?v, h')"
    and before: "\<And>a. memlink_begin ?v \<le> a \<and> a < 104 \<Longrightarrow> h' a = ?h a"
    and moved: "\<And>a. 104 \<le> a \<and> a < memlink_end ?v - 4 \<Longrightarrow> h' (a + 4) = ?h a"
    by blast
  have "h' 100 = 65" "h' 101 = 66" "h' 102 = 67" "h' 103 = 68"
    using before [of 100] before [of 101] before [of 102] before [of 103]
    by (simp_all add: view_simps heap_simps letters_def)
  moreover have "h' 108 = 69" "h' 109 = 70" "h' 110 = 71" "h' 111 = 72"
    using moved [of 104] moved [of 105] moved [of 106] moved [of 107]
    by (simp_all add: view_simps heap_simps letters_def)
  ultimately have "load h' 100 4 = [65, 66, 67, 68] \<and> load h' 108 4 = [69, 70, 71, 72]"
    by (simp add: load_def upt_rec)
  with run show ?thesis by blast
qed

text \<open>
  Claim C3. \<^verbatim>\<open>erase\<close> undoes \<^verbatim>\<open>insert\<close>: for a call \<^verbatim>\<open>insert (start, n)\<close> that
  meets the assertions, \<^verbatim>\<open>erase (start, n)\<close> on the memory it leaves returns too
  and leaves the memory exactly as it was before the insert, so every byte of
  the viewed region (those of \<open>[start, end - n)\<close> among them) has its first
  value; the bytes erase has moved to the tail \<open>[end - n, end)\<close> are those
  insert had put at \<open>[start, start + n)\<close>.
\<close>

theorem memlink_erase_undoes_insert:
  assumes "n = 0 \<or> m_Data v \<noteq> 0" and "n = 0 \<or> m_CData v \<noteq> 0"
    and "memlink_begin v \<le> start" and "start + n \<le> memlink_end v"
    and "0 < elementSize v" and "n mod elementSize v = 0"
    and "distance (memlink_begin v) start mod elementSize v = 0"
  shows "\<exists>h1. memlink_insert v h start n = Inr (v, h1) \<and>
           memlink_erase v h1 start n = Inr (v, h) \<and>
           load h (memlink_end v - n) n = load h1 start n"
proof -
  let ?h1 = "ustl_rotate h start (memlink_end v - n) (memlink_end v)"
  have ins: "memlink_insert v h start n = Inr (v, ?h1)"
    using assms
    by (auto simp: memlink_insert_def assert_def remainder_def cmemlink_begin_def Let_def)
  have "memlink_erase v ?h1 start n = Inr (v, ustl_rotate ?h1 start (start + n) (memlink_end v))"
    using assms
    by (auto simp: memlink_erase_def assert_def remainder_def cmemlink_begin_def Let_def)
  then have era: "memlink_erase v ?h1 start n = Inr (v, h)"
    using assms(4) by (simp add: rotate_unrotate)
  have tail: "load h (memlink_end v - n) n = load ?h1 start n"
    using assms(4)
    by (intro nth_equalityI) (auto simp: ustl_rotate_def store_def nth_append)
  from ins era tail show ?thesis by blast
qed

theorem memlink_erase_undoes_insert_witness:
  "\<exists>h1. memlink_insert (memlink_of_mutable 1 100 12) (store zero_heap 100 letters) 104 4 =
          Inr (memlink_of_mutable 1 100 12, h1) \<and>
        memlink_erase (memlink_of_mutable 1 100 12) h1 104 4 =
          Inr (memlink_of_mutable 1 100 12, store zero_heap 100 letters)"
proof -
  let ?v = "memlink_of_mutable 1 100 12" and ?h = "store zero_heap 100 letters"
  have "\<exists>h1. memlink_insert ?v ?h 104 4 = Inr (?v, h1) \<and>
           memlink_erase ?v h1 104 4 = Inr (?v, ?h) \<and>
           load ?h (memlink_end ?v - 4) 4 = load h1 104 4"
    by (rule memlink_erase_undoes_insert) (simp_all add: view_simps)
  then show ?thesis by blast
qed

section \<open>copy\<close>

text \<open>
  Claim C4. What the code does: \<^verbatim>\<open>copy\<close> compares the source \<open>p\<close> with the start
  of the block (\<^verbatim>\<open>m_Data\<close>), not with the destination \<open>start\<close>. A call that meets
  the assertions and whose source is the start of the block therefore returns
  without writing a byte, wherever in the block the destination lies: the
  bytes at \<open>p\<close> are not copied to a destination further on, although source and
  destination differ.
\<close>

theorem memlink_copy_from_block_start:
  assumes "p = m_Data v" and "n = 0 \<or> p \<noteq> 0"
    and "memlink_begin v \<le> start" and "start + n \<le> memlink_end v"
    and "0 < elementSize v" and "n mod elementSize v = 0"
  shows "memlink_copy v h start p n = Inr (v, h)"
  using assms by (auto simp: memlink_copy_def assert_def remainder_def)

text \<open>
  Eight bytes \<^verbatim>\<open>A\<close> to \<^verbatim>\<open>H\<close> at address 100, and the first four to be copied
  onto the last four: the last four stay \<^verbatim>\<open>E\<close> to \<^verbatim>\<open>H\<close>.
\<close>

theorem memlink_copy_from_block_start_witness:
  "memlink_copy (memlink_of_mutable 1 100 8) (store zero_heap 100 letters) 104 100 4 =
     Inr (memlink_of_mutable 1 100 8, store zero_heap 100 letters) \<and>
   load (store zero_heap 100 letters) 100 4 = [65, 66, 67, 68] \<and>
   load (store zero_heap 100 letters) 104 4 = [69, 70, 71, 72]"
proof -
  let ?v = "memlink_of_mutable 1 100 8"
  have "memlink_copy ?v (store zero_heap 100 letters) 104 100 4 =
      Inr (?v, store zero_heap 100 letters)"
    by (rule memlink_copy_from_block_start) (simp_all add: view_simps)
  then show ?thesis
    by (simp add: heap_simps letters_def)
qed

text \<open>
  Claim C10. \<^verbatim>\<open>copy\<close> of zero bytes to a destination inside the view
  (\<open>begin \<le> start \<le> end\<close>), from any source pointer, null included, and
  whether or not the data pointer is null: every assertion passes, no byte of
  memory is written, and the view (pointer, size, element size) is unchanged.
  The element size is positive, as the size of an element is.
\<close>

theorem memlink_copy_nothing:
  assumes "memlink_begin v \<le> start" and "start \<le> memlink_end v" and "0 < elementSize v"
  shows "memlink_copy v h start p 0 = Inr (v, h)"
  using assms by (simp add: memlink_copy_def assert_def remainder_def)

text \<open>
  A view without mutable pointer with a null source, and a mutable view of
  four-byte elements with the destination at its end.
\<close>

theorem memlink_copy_nothing_witness:
  "memlink_copy (memlink_of_const 1 100 8) zero_heap 0 0 0 =
     Inr (memlink_of_const 1 100 8, zero_heap) \<and>
   memlink_copy (memlink_of_mutable 4 100 8) zero_heap 108 0 0 =
     Inr (memlink_of_mutable 4 100 8, zero_heap)"
proof -
  have a: "memlink_copy (memlink_of_const 1 100 8) zero_heap 0 0 0 =
      Inr (memlink_of_const 1 100 8, zero_heap)"
    by (rule memlink_copy_nothing) (simp_all add: view_simps)
  have b: "memlink_copy (memlink_of_mutable 4 100 8) zero_heap 108 0 0 =
      Inr (memlink_of_mutable 4 100 8, zero_heap)"
    by (rule memlink_copy_nothing) (simp_all add: view_simps)
  from a b show ?thesis by simp
qed

section \<open>fill\<close>

text \<open>
  Claim C5, as the code has it. The first assertion of \<^verbatim>\<open>fill\<close> is
  \<^verbatim>\<open>assert (m_Data || !elCount || !elSize)\<close>: a call with a null data pointer
  fails it when the repeat count and the pattern size are both positive, that
  is, when bytes are to be written.
\<close>

theorem memlink_fill_null_data:
  assumes "m_Data v = 0" and "0 < elCount" and "0 < elSize"
  shows "memlink_fill v h start p elSize elCount = Inl AssertionFailed"
  using assms by (simp add: memlink_fill_def assert_def)

theorem memlink_fill_null_data_witness:
  "memlink_fill (memlink_of_const 1 100 8) zero_heap 0 200 4 2 = Inl AssertionFailed"
  by (rule memlink_fill_null_data) (simp_all add: view_simps)

text \<open>
  With only one of the two positive the assertion passes: a view without
  mutable pointer, a pattern of four bytes and a repeat count of zero. The call
  returns and writes nothing.
\<close>

theorem memlink_fill_null_data_counterexample:
  "m_Data (memlink_of_const 1 100 8) = 0 \<and> (0::nat) < 4 \<and>
   memlink_fill (memlink_of_const 1 100 8) zero_heap 0 200 4 0 =
     Inr (memlink_of_const 1 100 8, zero_heap)"
  by (simp add: memlink_fill_def assert_def remainder_def view_simps)

text \<open>
  Claim C6. A call \<^verbatim>\<open>fill (start, p, 1, k)\<close> that meets the assertions, with \<open>p\<close>
  not null: the single-byte branch (\<^verbatim>\<open>memset\<close>) leaves the memory that the
  general contract describes, \<open>k\<close> back-to-back copies of the one-byte pattern
  at \<open>p\<close> written from \<open>start\<close> on; the general branch's loop run on the same
  arguments leaves the same memory; the \<open>k\<close> bytes from \<open>start\<close> on all equal
  the byte at \<open>p\<close>, and no byte outside \<open>[start, start + k)\<close> has changed.
\<close>

theorem memlink_fill_single_byte:
  assumes "p \<noteq> 0" and "k = 0 \<or> m_Data v \<noteq> 0"
    and "memlink_begin v \<le> start" and "start + k \<le> memlink_end v"
    and "elementSize v = 1"
  shows "memlink_fill v h start p 1 k = Inr (v, spec_fill h start (load h p 1) k) \<and>
         fill_loop h start p 1 k = Inr (spec_fill h start (load h p 1) k) \<and>
         load (spec_fill h start (load h p 1) k) start k = replicate k (h p) \<and>
         (\<forall>a. a < start \<or> start + k \<le> a \<longrightarrow> spec_fill h start (load h p 1) k a = h a)"
proof -
  have pat: "load h p 1 = [h p]"
    by (simp add: load_def)
  have sf: "spec_fill h start (load h p 1) k = store h start (replicate k (h p))"
    unfolding spec_fill_def pat by (simp add: concat_replicate_single)
  have start: "k = 0 \<or> start \<noteq> 0"
    using assms(2,3) by (auto simp: memlink_begin_def)
  have run: "memlink_fill v h start p 1 k = Inr (v, store h start (replicate k (h p)))"
    using assms start
    by (auto simp: memlink_fill_def assert_def remainder_def deref_def memset_def)
  have loop: "fill_loop h start p 1 k = Inr (store h start (replicate k (h p)))"
    using assms(1) start by (rule fill_loop_byte)
  have bytes: "load (store h start (replicate k (h p))) start k = replicate k (h p)"
    using load_store_same [of h start "replicate k (h p)"] by simp
  have frame: "\<forall>a. a < start \<or> start + k \<le> a \<longrightarrow> store h start (replicate k (h p)) a = h a"
    by (simp add: store_outside)
  from run loop bytes frame show ?thesis
    unfolding sf by blast
qed

text \<open>The byte 42 at address 200, written three times from offset 2 of a view at 100.\<close>

theorem memlink_fill_single_byte_witness:
  "\<exists>h'. memlink_fill (memlink_of_mutable 1 100 8) (store zero_heap 200 [42]) 102 200 1 3 =
          Inr (memlink_of_mutable 1 100 8, h') \<and>
        fill_loop (store zero_heap 200 [42]) 102 200 1 3 = Inr h' \<and>
        load h' 100 8 = [0, 0, 42, 42, 42, 0, 0, 0]"
proof -
  let ?v = "memlink_of_mutable 1 100 8" and ?h = "store zero_heap 200 [42]"
  let ?h' = "spec_fill ?h 102 (load ?h 200 1) 3"
  have "memlink_fill ?v ?h 102 200 1 3 = Inr (?v, ?h') \<and> fill_loop ?h 102 200 1 3 = Inr ?h' \<and>
      load ?h' 102 3 = replicate 3 (?h 200) \<and>
      (\<forall>a. a < 102 \<or> 102 + 3 \<le> a \<longrightarrow> ?h' a = ?h a)"
    by (rule memlink_fill_single_byte) (simp_all add: view_simps)
  moreover have "load ?h' 100 8 = [0, 0, 42, 42, 42, 0, 0, 0]"
    by (simp add: spec_fill_def heap_simps)
  ultimately show ?thesis by blast
qed

text \<open>
  Claim C9. A call \<^verbatim>\<open>fill (start, p, 1, k)\<close> that meets the assertions loads the
  byte at \<open>p\<close> before it writes: with \<open>p\<close> null the call stops at that load, for
  every \<open>k\<close>, zero included, and not at an assertion; with \<open>p\<close> not null the byte
  written is the one \<open>p\<close> held when the call began.
\<close>

theorem memlink_fill_reads_pattern_first:
  assumes "k = 0 \<or> m_Data v \<noteq> 0"
    and "memlink_begin v \<le> start" and "start + k \<le> memlink_end v"
    and "elementSize v = 1"
  shows "memlink_fill v h start 0 1 k = Inl NullPointer \<and>
         (p \<noteq> 0 \<longrightarrow> memlink_fill v h start p 1 k = Inr (v, store h start (replicate k (h p))))"
proof -
  have start: "k = 0 \<or> start \<noteq> 0"
    using assms(1,2) by (auto simp: memlink_begin_def)
  show ?thesis
    using assms start
    by (auto simp: memlink_fill_def assert_def remainder_def deref_def memset_def)
qed

text \<open>A null pattern with nothing to write, and with three bytes to write.\<close>

theorem memlink_fill_reads_pattern_first_witness:
  "memlink_fill (memlink_of_mutable 1 100 8) zero_heap 102 0 1 0 = Inl NullPointer \<and>
   memlink_fill (memlink_of_mutable 1 100 8) zero_heap 102 0 1 3 = Inl NullPointer"
proof -
  have a: "memlink_fill (memlink_of_mutable 1 100 8) zero_heap 102 0 1 0 = Inl NullPointer"
    using memlink_fill_reads_pattern_first [of 0 "memlink_of_mutable 1 100 8" 102 zero_heap 0]
    by (simp add: view_simps)
  have b: "memlink_fill (memlink_of_mutable 1 100 8) zero_heap 102 0 1 3 = Inl NullPointer"
    using memlink_fill_reads_pattern_first [of 3 "memlink_of_mutable 1 100 8" 102 zero_heap 0]
    by (simp add: view_simps)
  from a b show ?thesis by simp
qed

section \<open>Descriptors\<close>

text \<open>
  Claim C7. After the assignment \<open>v = l\<close> from an immutable view \<open>l\<close>, and after
  constructing a view from \<open>l\<close>, the base part of the view is \<open>l\<close> itself, with
  nothing left of the view's earlier descriptor, and the mutable pointer is
  null; a view constructed from a const (pointer, length) pair observes that
  pointer and length and its mutable pointer is null.
\<close>

theorem memlink_from_immutable:
  "cmemlink.truncate (memlink_assign_cmemlink v l) = l \<and>
   m_Data (memlink_assign_cmemlink v l) = 0 \<and>
   cmemlink.truncate (memlink_of_cmemlink l) = l \<and>
   m_Data (memlink_of_cmemlink l) = 0 \<and>
   m_CData (memlink_of_const es p n) = p \<and>
   m_Size (memlink_of_const es p n) = n \<and>
   m_Data (memlink_of_const es p n) = 0"
  by (simp add: memlink_assign_cmemlink_def memlink_of_cmemlink_def memlink_of_const_def
      cmemlink_assign_def cmemlink_ctor_def cmemlink.defs memlink.defs)

text \<open>A view that could write at address 100 is assigned an immutable view of address 200.\<close>

theorem memlink_from_immutable_witness:
  "m_Data (memlink_of_mutable 1 100 8) = 100 \<and>
   memlink_assign_cmemlink (memlink_of_mutable 1 100 8) (cmemlink_ctor 2 200 4) =
     \<lparr>m_CData = 200, m_Size = 4, elementSize = 2, m_Data = 0\<rparr>"
  using memlink_from_immutable [of "memlink_of_mutable 1 100 8" "cmemlink_ctor 2 200 4"]
  by (simp add: view_simps memlink_assign_cmemlink_def cmemlink_assign_def)

text \<open>
  Claim C8. Invariant I1 holds of every reachable view: the constructors
  establish it, and assignment, link, unlink, swap, read, copy, fill, insert
  and erase preserve it.
\<close>

theorem I1_reachable: "reachable v \<Longrightarrow> I1 v"
proof (induction rule: reachable.induct)
  case (by_read v h s v' h' s')
  then show ?case
    by (auto simp: I1_def cmemlink_resize_def dest!: memlink_read_view)
next
  case (by_copy v h start p n v' h')
  then show ?case by (auto dest: memlink_copy_view)
next
  case (by_fill v h start p elSize elCount v' h')
  then show ?case by (auto dest: memlink_fill_view)
next
  case (by_insert v h start n v' h')
  then show ?case by (auto dest: memlink_insert_view)
next
  case (by_erase v h start n v' h')
  then show ?case by (auto dest: memlink_erase_view)
qed (simp_all add: I1_def memlink_default_def memlink_of_const_def memlink_of_mutable_def
      memlink_of_cmemlink_def memlink_of_memlink_def memlink_assign_cmemlink_def
      memlink_assign_def memlink_swap_def memlink_link_def memlink_unlink_def
      cmemlink_default_def cmemlink_ctor_def cmemlink_assign_def cmemlink_swap_def
      cmemlink_link_def cmemlink_unlink_def cmemlink.defs memlink.defs)

text \<open>
  A view linked to address 100, swapped with one made from a const pointer,
  then assigned from a third.
\<close>

theorem I1_reachable_witness:
  "reachable (memlink_link (memlink_default 1) 100 8) \<and>
   I1 (memlink_link (memlink_default 1) 100 8) \<and>
   I1 (memlink_assign (fst (memlink_swap (memlink_link (memlink_default 1) 100 8)
         (memlink_of_const 1 200 4))) (memlink_of_mutable 1 300 2))"
proof -
  have r: "reachable (memlink_link (memlink_default 1) 100 8)"
    by (intro by_link by_default)
  have q: "reachable (memlink_assign (fst (memlink_swap (memlink_link (memlink_default 1) 100 8)
         (memlink_of_const 1 200 4))) (memlink_of_mutable 1 300 2))"
    by (intro by_assign by_swap_this by_of_const by_of_mutable r)
  from r I1_reachable [OF r] I1_reachable [OF q] show ?thesis by simp
qed

end
